theory Spec2Isabelle
  imports Main "HOL-Library.Word"
begin

unbundle bit_operations_syntax

section \<open>The management ioctl interface: include/uapi/drm/xmgmt\_drm.h\<close>

subsection \<open>enum xclFirewallID\<close>

text \<open>
  A C enumeration declares integer constants: the first enumerator has the value its
  initialiser gives (here \<open>= 0\<close>), every later one without an initialiser is the
  previous one plus one. The definitions follow the declaration line by line.
\<close>

definition XCL_FW_MGMT_CONTROL :: int where
  "XCL_FW_MGMT_CONTROL = 0"

definition XCL_FW_USER_CONTROL :: int where
  "XCL_FW_USER_CONTROL = XCL_FW_MGMT_CONTROL + 1"

definition XCL_FW_DATAPATH :: int where
  "XCL_FW_DATAPATH = XCL_FW_USER_CONTROL + 1"

definition XCL_FW_MAX_LEVEL :: int where
  "XCL_FW_MAX_LEVEL = XCL_FW_DATAPATH + 1"

text \<open>The enumerators that name a firewall, in declaration order (the sentinel left out).\<close>

definition xclFirewallID_members :: "int list" where
  "xclFirewallID_members = [XCL_FW_MGMT_CONTROL, XCL_FW_USER_CONTROL, XCL_FW_DATAPATH]"

subsection \<open>Object-like macros\<close>

definition XCLMGMT_IOC_MAGIC :: "32 word" where
  "XCLMGMT_IOC_MAGIC = 0x58"  \<comment> \<open>the character constant 'X'\<close>

definition XCLMGMT_NUM_SUPPORTED_CLOCKS :: int where
  "XCLMGMT_NUM_SUPPORTED_CLOCKS = 4"

definition XCLMGMT_NUM_ACTUAL_CLOCKS :: int where
  "XCLMGMT_NUM_ACTUAL_CLOCKS = 2"

definition XCLMGMT_NUM_FIREWALL_IPS :: int where
  "XCLMGMT_NUM_FIREWALL_IPS = 3"

definition AWS_SHELL14 :: int where
  "AWS_SHELL14 = 69605400"

subsection \<open>enum XCLMGMT\_IOC\_TYPES\<close>

text \<open>No enumerator has an initialiser: the first is 0, each next one is one more.\<close>

definition XCLMGMT_IOC_INFO :: int where
  "XCLMGMT_IOC_INFO = 0"

definition XCLMGMT_IOC_ICAP_DOWNLOAD :: int where
  "XCLMGMT_IOC_ICAP_DOWNLOAD = XCLMGMT_IOC_INFO + 1"

definition XCLMGMT_IOC_FREQ_SCALE :: int where
  "XCLMGMT_IOC_FREQ_SCALE = XCLMGMT_IOC_ICAP_DOWNLOAD + 1"

definition XCLMGMT_IOC_OCL_RESET :: int where
  "XCLMGMT_IOC_OCL_RESET = XCLMGMT_IOC_FREQ_SCALE + 1"

definition XCLMGMT_IOC_HOT_RESET :: int where
  "XCLMGMT_IOC_HOT_RESET = XCLMGMT_IOC_OCL_RESET + 1"

definition XCLMGMT_IOC_REBOOT :: int where
  "XCLMGMT_IOC_REBOOT = XCLMGMT_IOC_HOT_RESET + 1"

definition XCLMGMT_IOC_ICAP_DOWNLOAD_AXLF :: int where
  "XCLMGMT_IOC_ICAP_DOWNLOAD_AXLF = XCLMGMT_IOC_REBOOT + 1"

definition XCLMGMT_IOC_ERR_INFO :: int where
  "XCLMGMT_IOC_ERR_INFO = XCLMGMT_IOC_ICAP_DOWNLOAD_AXLF + 1"

definition XCLMGMT_IOC_MAX :: int where
  "XCLMGMT_IOC_MAX = XCLMGMT_IOC_ERR_INFO + 1"

text \<open>The command codes in declaration order (the sentinel \<open>XCLMGMT_IOC_MAX\<close> left out).\<close>

definition XCLMGMT_IOC_TYPES :: "int list" where
  "XCLMGMT_IOC_TYPES =
     [XCLMGMT_IOC_INFO, XCLMGMT_IOC_ICAP_DOWNLOAD, XCLMGMT_IOC_FREQ_SCALE,
      XCLMGMT_IOC_OCL_RESET, XCLMGMT_IOC_HOT_RESET, XCLMGMT_IOC_REBOOT,
      XCLMGMT_IOC_ICAP_DOWNLOAD_AXLF, XCLMGMT_IOC_ERR_INFO]"

subsection \<open>The ioctl request macros\<close>

text \<open>
  The header includes \<open>linux/ioctl.h\<close> for \<open>_IO\<close>, \<open>_IOR\<close> and \<open>_IOW\<close>. That
  header belongs to the kernel, not to this driver; the definitions below are the
  generic encoding of \<open>asm-generic/ioctl.h\<close>: a 32-bit request number with the command
  number in bits 0-7, the magic in bits 8-15, the argument size in bits 16-29 and the
  direction in bits 30-31. An identifier cannot start with an underscore here, so
  \<open>_IOC\<close> is \<open>IOC\<close>, and so on. The third argument of \<open>_IOR\<close> and \<open>_IOW\<close> is a
  type in C and the macro takes its \<open>sizeof\<close>; the size of a struct depends on the
  ABI, so each request macro takes that size as its parameter.
\<close>

definition IOC_NONE :: "32 word" where "IOC_NONE = 0"
definition IOC_WRITE :: "32 word" where "IOC_WRITE = 1"
definition IOC_READ :: "32 word" where "IOC_READ = 2"

definition IOC :: "32 word \<Rightarrow> 32 word \<Rightarrow> int \<Rightarrow> 32 word \<Rightarrow> 32 word" where
  "IOC dir ty nr sz =
     push_bit 30 dir OR push_bit 8 ty OR push_bit 0 (word_of_int nr) OR push_bit 16 sz"

definition IO :: "32 word \<Rightarrow> int \<Rightarrow> 32 word" where
  "IO ty nr = IOC IOC_NONE ty nr 0"

definition IOR :: "32 word \<Rightarrow> int \<Rightarrow> 32 word \<Rightarrow> 32 word" where
  "IOR ty nr sz = IOC IOC_READ ty nr sz"

definition IOW :: "32 word \<Rightarrow> int \<Rightarrow> 32 word \<Rightarrow> 32 word" where
  "IOW ty nr sz = IOC IOC_WRITE ty nr sz"

text \<open>\<open>_IOC_NR\<close>: the command number a request was built from.\<close>

definition IOC_NR :: "32 word \<Rightarrow> 32 word" where
  "IOC_NR req = drop_bit 0 req AND 0xff"

definition XCLMGMT_IOCINFO :: "32 word \<Rightarrow> 32 word" where
  "XCLMGMT_IOCINFO sizeof_xclmgmt_ioc_info =
     IOR XCLMGMT_IOC_MAGIC XCLMGMT_IOC_INFO sizeof_xclmgmt_ioc_info"

definition XCLMGMT_IOCICAPDOWNLOAD :: "32 word \<Rightarrow> 32 word" where
  "XCLMGMT_IOCICAPDOWNLOAD sizeof_xclmgmt_ioc_bitstream =
     IOW XCLMGMT_IOC_MAGIC XCLMGMT_IOC_ICAP_DOWNLOAD sizeof_xclmgmt_ioc_bitstream"

definition XCLMGMT_IOCICAPDOWNLOAD_AXLF :: "32 word \<Rightarrow> 32 word" where
  "XCLMGMT_IOCICAPDOWNLOAD_AXLF sizeof_xclmgmt_ioc_bitstream_axlf =
     IOW XCLMGMT_IOC_MAGIC XCLMGMT_IOC_ICAP_DOWNLOAD_AXLF sizeof_xclmgmt_ioc_bitstream_axlf"

definition XCLMGMT_IOCFREQSCALE :: "32 word \<Rightarrow> 32 word" where
  "XCLMGMT_IOCFREQSCALE sizeof_xclmgmt_ioc_freqscaling =
     IOW XCLMGMT_IOC_MAGIC XCLMGMT_IOC_FREQ_SCALE sizeof_xclmgmt_ioc_freqscaling"

definition XCLMGMT_IOCHOTRESET :: "32 word" where
  "XCLMGMT_IOCHOTRESET = IO XCLMGMT_IOC_MAGIC XCLMGMT_IOC_HOT_RESET"

definition XCLMGMT_IOCOCLRESET :: "32 word" where
  "XCLMGMT_IOCOCLRESET = IO XCLMGMT_IOC_MAGIC XCLMGMT_IOC_OCL_RESET"

definition XCLMGMT_IOCREBOOT :: "32 word" where
  "XCLMGMT_IOCREBOOT = IO XCLMGMT_IOC_MAGIC XCLMGMT_IOC_REBOOT"

definition XCLMGMT_IOCERRINFO :: "32 word \<Rightarrow> 32 word" where
  "XCLMGMT_IOCERRINFO sizeof_xclErrorStatus =
     IOR XCLMGMT_IOC_MAGIC XCLMGMT_IOC_ERR_INFO sizeof_xclErrorStatus"


subsection \<open>The command surface the request codes are routed to\<close>

text \<open>
  Modelled from the spec: the command dispatcher is not in the sources, which declare the
  request codes only. The specification's command surface lists seven commands; the
  routing below follows the header's own documentation of each request (the table of its
  opening comment and the "used with ... ioctl" note of each argument struct). A code
  outside the enumeration names no command.
\<close>

datatype Command =
  InfoQuery | ImageDownload | FrequencyScale | HotReset | LogicReset | Reboot | ErrorQuery

definition command_surface :: "Command list" where
  "command_surface =
     [InfoQuery, ImageDownload, FrequencyScale, HotReset, LogicReset, Reboot, ErrorQuery]"

definition command_of :: "int \<Rightarrow> Command option" where
  "command_of code =
     (if code = XCLMGMT_IOC_INFO then Some InfoQuery
      else if code = XCLMGMT_IOC_ICAP_DOWNLOAD then Some ImageDownload
      else if code = XCLMGMT_IOC_FREQ_SCALE then Some FrequencyScale
      else if code = XCLMGMT_IOC_OCL_RESET then Some LogicReset
      else if code = XCLMGMT_IOC_HOT_RESET then Some HotReset
      else if code = XCLMGMT_IOC_REBOOT then Some Reboot
      else if code = XCLMGMT_IOC_ICAP_DOWNLOAD_AXLF then Some ImageDownload
      else if code = XCLMGMT_IOC_ERR_INFO then Some ErrorQuery
      else None)"

text \<open>The codes of the enumeration that are routed to a given command.\<close>

definition codes_of :: "Command \<Rightarrow> int list" where
  "codes_of c = filter (\<lambda>code. command_of code = Some c) XCLMGMT_IOC_TYPES"

section \<open>The periodic test-event generator: drivers/gpu/drm/xocl/xocl\_test.c\<close>

text \<open>
  The three functions take a pointer and return an \<open>int\<close> (a 32-bit word, read as
  two's complement by \<open>sint\<close>). Everything they could
  change is made explicit as a state: the memory that pointers to
  \<open>struct drm_xocl_dev\<close> reach (an address either holds a device or nothing; address 0 is
  \<open>NULL\<close>), and the two globals the file defines. The struct itself is declared in
  \<open>xocl_drv.h\<close>, which is not part of the sources, so it is the type parameter
  \<open>'dev\<close>. The bodies between \<open>#if 0\<close> and \<open>#endif\<close> are removed by the
  preprocessor and are no part of the functions.
\<close>

record 'dev kernel_state =
  devices :: "nat \<rightharpoonup> 'dev"
  test_interval :: "32 word"
  test_on :: bool

text \<open>The initialisers of the globals: \<open>int xocl_test_interval = 5\<close> and
  \<open>bool xocl_test_on = true\<close>.\<close>

definition xocl_test_interval :: "32 word" where
  "xocl_test_interval = 5"

definition xocl_test_on :: bool where
  "xocl_test_on = True"

definition xocl_test_thread_main :: "nat \<Rightarrow> 'dev kernel_state \<Rightarrow> 32 word \<times> 'dev kernel_state" where
  "xocl_test_thread_main data s = (0, s)"

definition xocl_init_test_thread :: "nat \<Rightarrow> 'dev kernel_state \<Rightarrow> 32 word \<times> 'dev kernel_state" where
  "xocl_init_test_thread xdev s = (let ret = 0 in (ret, s))"

definition xocl_fini_test_thread :: "nat \<Rightarrow> 'dev kernel_state \<Rightarrow> 32 word \<times> 'dev kernel_state" where
  "xocl_fini_test_thread xdev s = (let ret = 0 in (ret, s))"

section \<open>The management core as the specification designs it\<close>

text \<open>
  The sources declare the data that crosses the ioctl boundary; the logic behind it
  (the firewall monitor, the clock controller) is in none of the two files. The
  definitions of this section are therefore written from the specification, sentence by
  sentence, with the field types of the header's structs: a firewall status and a PR
  region are \<open>unsigned int\<close>, a frequency is \<open>unsigned short\<close>, a timestamp is 64 bits.
\<close>

subsection \<open>Data model\<close>

text \<open>Modelled from the spec: the data model of its section 3 (FirewallDomain,
  FirewallTripRecord, ErrorReport, FrequencyScalingRequest, DeviceState); no source file
  holds a device state or a trip log.\<close>

datatype FirewallDomain = ManagementControl | UserControl | Datapath

record FirewallTripRecord =
  domain :: FirewallDomain
  statusCode :: "32 word"
  timestamp :: "64 word"

record PciErrorCounters =
  deviceStatus :: "32 word"
  uncorrectableCount :: "32 word"
  correctableCount :: "32 word"

record ErrorReport =
  trips :: "FirewallTripRecord list"
  firewallLevel :: "32 word"
  pciErrorCounters :: PciErrorCounters

record FrequencyScalingRequest =
  region :: "32 word"
  targets :: "16 word list"

record DeviceState =
  trip_set :: "FirewallDomain set"
  trip_log :: "FirewallTripRecord list"
  clock_freq :: "16 word list"
  exclusive :: bool

text \<open>Modelled from the spec: the device state created at device attach (no domain
  tripped, an empty log, exclusivity free); the frequencies the clocks run at are read from
  the hardware and are the parameter.\<close>

definition attach :: "16 word list \<Rightarrow> DeviceState" where
  "attach freqs = \<lparr>trip_set = {}, trip_log = [], clock_freq = freqs, exclusive = False\<rparr>"

subsection \<open>Firewall Monitor\<close>

text \<open>Modelled from the spec: the capacity of the trip log, "maximum 8 live records" (the
  header's \<open>mAXIErrorStatus[8]\<close>).\<close>

definition trip_capacity :: nat where
  "trip_capacity = 8"

text \<open>Modelled from the spec: the overflow policy of the bounded log. The record is
  appended; if the capacity is then exceeded, the oldest record (the head) is evicted.\<close>

definition append_bounded :: "FirewallTripRecord \<Rightarrow> FirewallTripRecord list \<Rightarrow> FirewallTripRecord list" where
  "append_bounded r log =
     (let log' = log @ [r] in if trip_capacity < length log' then tl log' else log')"

text \<open>Modelled from the spec: \<open>observe(domain, statusCode) -> TripRecord\<close>. The record
  takes its timestamp from the monotonic clock, whose reading \<open>now\<close> the environment
  supplies. The call appends the record to the bounded log and makes the domain tripped;
  it returns the record and the new state.\<close>

definition observe :: "64 word \<Rightarrow> FirewallDomain \<Rightarrow> 32 word \<Rightarrow> DeviceState \<Rightarrow> FirewallTripRecord \<times> DeviceState" where
  "observe now d code st =
     (let r = \<lparr>domain = d, statusCode = code, timestamp = now\<rparr>
      in (r, st\<lparr>trip_set := insert d (trip_set st),
                trip_log := append_bounded r (trip_log st)\<rparr>))"

text \<open>Modelled from the spec: \<open>isTripped(domain) -> bool\<close>, read from the state at every
  call (no caching).\<close>

definition isTripped :: "FirewallDomain \<Rightarrow> DeviceState \<Rightarrow> bool" where
  "isTripped d st = (d \<in> trip_set st)"

text \<open>Modelled from the spec: \<open>snapshot() -> ErrorReport\<close>. The trips are the log; the
  severity level and the PCI error counters come from readers outside the core and are
  parameters.\<close>

definition snapshot :: "32 word \<Rightarrow> PciErrorCounters \<Rightarrow> DeviceState \<Rightarrow> ErrorReport" where
  "snapshot level pci st = \<lparr>trips = trip_log st, firewallLevel = level, pciErrorCounters = pci\<rparr>"

text \<open>Modelled from the spec: the error of the Firewall Monitor, \<open>StillActive\<close> (clear
  requested before the underlying condition is resolved).\<close>

datatype MonitorError = StillActive

text \<open>Modelled from the spec: \<open>clear(domain) -> Result\<close>. Whether the hardware
  condition has been resolved by a preceding reset is asserted by the Reset Coordinator
  and is the parameter \<open>resolved\<close>. A successful clear ends the domain's tripped state
  and removes its records from the log (the specification's end-to-end scenario reads an
  empty trip list after the trip is cleared).\<close>

definition clear :: "bool \<Rightarrow> FirewallDomain \<Rightarrow> DeviceState \<Rightarrow> MonitorError + DeviceState" where
  "clear resolved d st =
     (if \<not> resolved then Inl StillActive
      else Inr (st\<lparr>trip_set := trip_set st - {d},
                   trip_log := filter (\<lambda>r. domain r \<noteq> d) (trip_log st)\<rparr>))"

text \<open>A sequence of \<open>observe\<close> calls, each with its clock reading: the records the calls
  return, in call order, and the state after the last call.\<close>

fun observe_all :: "(64 word \<times> FirewallDomain \<times> 32 word) list \<Rightarrow> DeviceState \<Rightarrow> FirewallTripRecord list \<times> DeviceState" where
  "observe_all [] st = ([], st)"
| "observe_all ((now, d, code) # calls) st =
     (let (r, st') = observe now d code st;
          (rs, st'') = observe_all calls st'
      in (r # rs, st''))"

subsection \<open>Clock Controller\<close>

text \<open>Modelled from the spec: the hardware-supported range of each clock index, a
  property of the device-capability collaborator: the lowest and the highest frequency
  the clock accepts.\<close>

type_synonym capability = "nat \<Rightarrow> 16 word \<times> 16 word"

definition in_range :: "capability \<Rightarrow> nat \<Rightarrow> 16 word \<Rightarrow> bool" where
  "in_range cap i f = (fst (cap i) \<le> f \<and> f \<le> snd (cap i))"

text \<open>Modelled from the spec: "validates each non-zero target is within the
  hardware-supported range for that clock index"; \<open>i\<close> is the index of the first target
  of the list.\<close>

fun targets_valid :: "capability \<Rightarrow> nat \<Rightarrow> 16 word list \<Rightarrow> bool" where
  "targets_valid cap i [] = True"
| "targets_valid cap i (t # ts) = ((t = 0 \<or> in_range cap i t) \<and> targets_valid cap (Suc i) ts)"

text \<open>Modelled from the spec: "updates the corresponding entries of DeviceState's
  clock-frequency record; zero-valued entries leave their corresponding current value
  untouched". A request may hold fewer targets than there are clocks; the remaining
  clocks keep their frequency.\<close>

fun apply_targets :: "16 word list \<Rightarrow> 16 word list \<Rightarrow> 16 word list" where
  "apply_targets [] cs = cs"
| "apply_targets (t # ts) [] = []"
| "apply_targets (t # ts) (c # cs) = (if t = 0 then c else t) # apply_targets ts cs"

text \<open>Modelled from the spec: the errors of the Clock Controller. The specification
  names \<open>PartiallyInvalid\<close> and \<open>DomainTripped\<close>; it names no error for a region other
  than 0, which is \<open>UnsupportedRegion\<close> here.\<close>

datatype ClockError = UnsupportedRegion | PartiallyInvalid | DomainTripped

text \<open>Modelled from the spec: \<open>scale(request, DeviceState) -> Result\<close>, the checks in
  the order of the specification's section 4.4: the region, the range of every non-zero
  target, the tripped domains; only then are the frequencies updated. A rejected request
  returns the error alone: the device state stays the caller's.\<close>

definition scale :: "capability \<Rightarrow> FrequencyScalingRequest \<Rightarrow> DeviceState \<Rightarrow> ClockError + DeviceState" where
  "scale cap req st =
     (if region req \<noteq> 0 then Inl UnsupportedRegion
      else if \<not> targets_valid cap 0 (targets req) then Inl PartiallyInvalid
      else if isTripped Datapath st \<or> isTripped ManagementControl st then Inl DomainTripped
      else Inr (st\<lparr>clock_freq := apply_targets (targets req) (clock_freq st)\<rparr>))"

subsection \<open>Sequences of operations\<close>

text \<open>The operations of the two components, each with the inputs its environment
  supplies. A rejected operation leaves the state as it was.\<close>

datatype operation =
  Observe "64 word" FirewallDomain "32 word"
| IsTripped FirewallDomain
| Snapshot "32 word" PciErrorCounters
| Clear bool FirewallDomain
| Scale FrequencyScalingRequest

fun perform :: "capability \<Rightarrow> operation \<Rightarrow> DeviceState \<Rightarrow> DeviceState" where
  "perform cap (Observe now d code) st = snd (observe now d code st)"
| "perform cap (IsTripped d) st = st"
| "perform cap (Snapshot level pci) st = st"
| "perform cap (Clear resolved d) st =
     (case clear resolved d st of Inl e \<Rightarrow> st | Inr st' \<Rightarrow> st')"
| "perform cap (Scale req) st =
     (case scale cap req st of Inl e \<Rightarrow> st | Inr st' \<Rightarrow> st')"

fun run :: "capability \<Rightarrow> operation list \<Rightarrow> DeviceState \<Rightarrow> DeviceState" where
  "run cap [] st = st"
| "run cap (op # ops) st = run cap ops (perform cap op st)"

section \<open>Proofs: the ioctl interface\<close>

lemmas xclFirewallID_defs =
  XCL_FW_MGMT_CONTROL_def XCL_FW_USER_CONTROL_def XCL_FW_DATAPATH_def XCL_FW_MAX_LEVEL_def

lemmas XCLMGMT_IOC_TYPES_defs =
  XCLMGMT_IOC_INFO_def XCLMGMT_IOC_ICAP_DOWNLOAD_def XCLMGMT_IOC_FREQ_SCALE_def
  XCLMGMT_IOC_OCL_RESET_def XCLMGMT_IOC_HOT_RESET_def XCLMGMT_IOC_REBOOT_def
  XCLMGMT_IOC_ICAP_DOWNLOAD_AXLF_def XCLMGMT_IOC_ERR_INFO_def XCLMGMT_IOC_MAX_def

lemmas request_macro_defs =
  XCLMGMT_IOCINFO_def XCLMGMT_IOCICAPDOWNLOAD_def XCLMGMT_IOCICAPDOWNLOAD_AXLF_def
  XCLMGMT_IOCFREQSCALE_def XCLMGMT_IOCHOTRESET_def XCLMGMT_IOCOCLRESET_def
  XCLMGMT_IOCREBOOT_def XCLMGMT_IOCERRINFO_def IO_def IOR_def IOW_def

lemma firewall_ids_below_sentinel:
  "{i. 0 \<le> i \<and> i < XCL_FW_MAX_LEVEL} = set xclFirewallID_members"
  by (auto simp add: xclFirewallID_members_def xclFirewallID_defs)

lemma nr_mask: "(0xff :: 32 word) = mask 8"
  by (simp add: mask_eq_exp_minus_1)

text \<open>The command number of a request is the low byte of the code it was built from:
  neither the direction, the magic nor the size reaches bits 0-7.\<close>

lemma IOC_NR_IOC: "IOC_NR (IOC dir ty nr sz) = take_bit 8 (word_of_int nr)"
  unfolding IOC_NR_def IOC_def nr_mask
  by (rule bit_word_eqI) (auto simp add: bit_simps)

lemma request_numbers:
  "map IOC_NR
     [XCLMGMT_IOCINFO s1, XCLMGMT_IOCICAPDOWNLOAD s2, XCLMGMT_IOCICAPDOWNLOAD_AXLF s3,
      XCLMGMT_IOCFREQSCALE s4, XCLMGMT_IOCHOTRESET, XCLMGMT_IOCOCLRESET, XCLMGMT_IOCREBOOT,
      XCLMGMT_IOCERRINFO s5] =
   map word_of_int
     [XCLMGMT_IOC_INFO, XCLMGMT_IOC_ICAP_DOWNLOAD, XCLMGMT_IOC_ICAP_DOWNLOAD_AXLF,
      XCLMGMT_IOC_FREQ_SCALE, XCLMGMT_IOC_HOT_RESET, XCLMGMT_IOC_OCL_RESET,
      XCLMGMT_IOC_REBOOT, XCLMGMT_IOC_ERR_INFO]"
  by (simp add: IOC_NR_IOC request_macro_defs XCLMGMT_IOC_TYPES_defs)

lemma codes_of_each:
  "map codes_of command_surface =
     [[XCLMGMT_IOC_INFO], [XCLMGMT_IOC_ICAP_DOWNLOAD, XCLMGMT_IOC_ICAP_DOWNLOAD_AXLF],
      [XCLMGMT_IOC_FREQ_SCALE], [XCLMGMT_IOC_HOT_RESET], [XCLMGMT_IOC_OCL_RESET],
      [XCLMGMT_IOC_REBOOT], [XCLMGMT_IOC_ERR_INFO]]"
  by (simp add: command_surface_def codes_of_def command_of_def XCLMGMT_IOC_TYPES_def
      XCLMGMT_IOC_TYPES_defs)

text \<open>
  C9. The firewall identifiers are exactly the three values 0, 1, 2, in declaration
  order; the integers from 0 up to the sentinel are these three and no other; the
  sentinel \<open>XCL_FW_MAX_LEVEL\<close> is 3 and equals \<open>XCLMGMT_NUM_FIREWALL_IPS\<close>.
\<close>

theorem xclFirewallID_closed:
  "xclFirewallID_members = [0, 1, 2]
   \<and> XCL_FW_MGMT_CONTROL = 0 \<and> XCL_FW_USER_CONTROL = 1 \<and> XCL_FW_DATAPATH = 2
   \<and> {i. 0 \<le> i \<and> i < XCL_FW_MAX_LEVEL} = set xclFirewallID_members
   \<and> XCL_FW_MAX_LEVEL = 3
   \<and> XCL_FW_MAX_LEVEL = XCLMGMT_NUM_FIREWALL_IPS"
proof -
  have "xclFirewallID_members = [0, 1, 2]"
    by (simp add: xclFirewallID_members_def xclFirewallID_defs)
  moreover have "XCL_FW_MAX_LEVEL = 3" "XCL_FW_MAX_LEVEL = XCLMGMT_NUM_FIREWALL_IPS"
    by (simp_all add: xclFirewallID_defs XCLMGMT_NUM_FIREWALL_IPS_def)
  moreover have "XCL_FW_MGMT_CONTROL = 0" "XCL_FW_USER_CONTROL = 1" "XCL_FW_DATAPATH = 2"
    by (simp_all add: xclFirewallID_defs)
  ultimately show ?thesis
    using firewall_ids_below_sentinel by simp
qed

text \<open>
  C10. The command codes are the eight values 0 to 7 in declaration order, all
  different, and \<open>XCLMGMT_IOC_MAX\<close> is 8. That is one more than the seven commands of
  the command surface: every command is reached by exactly one code, except image
  download, which is reached by the two different codes \<open>XCLMGMT_IOC_ICAP_DOWNLOAD\<close>
  and \<open>XCLMGMT_IOC_ICAP_DOWNLOAD_AXLF\<close>. Each of the eight request macros carries,
  whatever the sizes of the argument structs, the code it is built from as its command
  number, and these eight numbers are all different.
\<close>

theorem XCLMGMT_IOC_TYPES_eight_codes:
  "XCLMGMT_IOC_TYPES = [0, 1, 2, 3, 4, 5, 6, 7]
   \<and> distinct XCLMGMT_IOC_TYPES
   \<and> XCLMGMT_IOC_MAX = 8
   \<and> XCLMGMT_IOC_MAX = int (length XCLMGMT_IOC_TYPES)
   \<and> length command_surface = 7
   \<and> XCLMGMT_IOC_MAX = int (length command_surface) + 1
   \<and> map codes_of command_surface =
       [[XCLMGMT_IOC_INFO], [XCLMGMT_IOC_ICAP_DOWNLOAD, XCLMGMT_IOC_ICAP_DOWNLOAD_AXLF],
        [XCLMGMT_IOC_FREQ_SCALE], [XCLMGMT_IOC_HOT_RESET], [XCLMGMT_IOC_OCL_RESET],
        [XCLMGMT_IOC_REBOOT], [XCLMGMT_IOC_ERR_INFO]]
   \<and> XCLMGMT_IOC_ICAP_DOWNLOAD \<noteq> XCLMGMT_IOC_ICAP_DOWNLOAD_AXLF
   \<and> map IOC_NR
       [XCLMGMT_IOCINFO s1, XCLMGMT_IOCICAPDOWNLOAD s2, XCLMGMT_IOCICAPDOWNLOAD_AXLF s3,
        XCLMGMT_IOCFREQSCALE s4, XCLMGMT_IOCHOTRESET, XCLMGMT_IOCOCLRESET, XCLMGMT_IOCREBOOT,
        XCLMGMT_IOCERRINFO s5] =
      map word_of_int
       [XCLMGMT_IOC_INFO, XCLMGMT_IOC_ICAP_DOWNLOAD, XCLMGMT_IOC_ICAP_DOWNLOAD_AXLF,
        XCLMGMT_IOC_FREQ_SCALE, XCLMGMT_IOC_HOT_RESET, XCLMGMT_IOC_OCL_RESET,
        XCLMGMT_IOC_REBOOT, XCLMGMT_IOC_ERR_INFO]
   \<and> distinct (map IOC_NR
       [XCLMGMT_IOCINFO s1, XCLMGMT_IOCICAPDOWNLOAD s2, XCLMGMT_IOCICAPDOWNLOAD_AXLF s3,
        XCLMGMT_IOCFREQSCALE s4, XCLMGMT_IOCHOTRESET, XCLMGMT_IOCOCLRESET, XCLMGMT_IOCREBOOT,
        XCLMGMT_IOCERRINFO s5])"
proof -
  have codes: "XCLMGMT_IOC_TYPES = [0, 1, 2, 3, 4, 5, 6, 7]"
    by (simp add: XCLMGMT_IOC_TYPES_def XCLMGMT_IOC_TYPES_defs)
  have mx: "XCLMGMT_IOC_MAX = 8"
    by (simp add: XCLMGMT_IOC_TYPES_defs)
  have surface: "length command_surface = 7"
    by (simp add: command_surface_def)
  have two: "XCLMGMT_IOC_ICAP_DOWNLOAD \<noteq> XCLMGMT_IOC_ICAP_DOWNLOAD_AXLF"
    by (simp add: XCLMGMT_IOC_TYPES_defs)
  have nrs: "distinct (map IOC_NR
       [XCLMGMT_IOCINFO s1, XCLMGMT_IOCICAPDOWNLOAD s2, XCLMGMT_IOCICAPDOWNLOAD_AXLF s3,
        XCLMGMT_IOCFREQSCALE s4, XCLMGMT_IOCHOTRESET, XCLMGMT_IOCOCLRESET, XCLMGMT_IOCREBOOT,
        XCLMGMT_IOCERRINFO s5])"
    unfolding request_numbers by (simp add: XCLMGMT_IOC_TYPES_defs)
  have dist: "distinct XCLMGMT_IOC_TYPES"
    unfolding codes by simp
  have len: "XCLMGMT_IOC_MAX = int (length XCLMGMT_IOC_TYPES)"
    unfolding codes mx by simp
  have more: "XCLMGMT_IOC_MAX = int (length command_surface) + 1"
    unfolding surface mx by simp
  show ?thesis
    by (intro conjI codes dist mx len surface more codes_of_each two request_numbers nrs)
qed

section \<open>Proofs: the test-event generator\<close>

text \<open>
  C8. The test-event generator is inert. For every pointer \<open>xdev\<close> and every state
  (also one where \<open>xdev\<close> is \<open>NULL\<close> or points at nothing), \<open>xocl_init_test_thread\<close>
  and \<open>xocl_fini_test_thread\<close> return 0 and leave the state as it was; so does
  \<open>xocl_test_thread_main\<close>, whose result is the same for any two values of its
  \<open>data\<close> argument.
\<close>

theorem xocl_test_thread_inert:
  "xocl_init_test_thread xdev s = (0, s)
   \<and> xocl_fini_test_thread xdev s = (0, s)
   \<and> xocl_test_thread_main data s = (0, s)
   \<and> xocl_test_thread_main data s = xocl_test_thread_main data' s"
  by (simp add: xocl_init_test_thread_def xocl_fini_test_thread_def xocl_test_thread_main_def)

section \<open>Proofs: the firewall monitor\<close>

lemma observe_fst: "fst (observe now d code st) = \<lparr>domain = d, statusCode = code, timestamp = now\<rparr>"
  by (simp add: observe_def Let_def)

lemma observe_log:
  "trip_log (snd (observe now d code st)) =
     append_bounded \<lparr>domain = d, statusCode = code, timestamp = now\<rparr> (trip_log st)"
  by (simp add: observe_def Let_def)

lemma append_bounded_drop:
  assumes "length log \<le> trip_capacity"
  shows "append_bounded r log = drop (length (log @ [r]) - trip_capacity) (log @ [r])"
proof (cases "length log = trip_capacity")
  case True
  then have "log \<noteq> []" by (auto simp add: trip_capacity_def)
  then have "tl (log @ [r]) = drop 1 (log @ [r])" by (cases log) simp_all
  moreover from True have "length (log @ [r]) - trip_capacity = 1" by simp
  moreover from True have "append_bounded r log = tl (log @ [r])"
    by (simp add: append_bounded_def)
  ultimately show ?thesis by simp
next
  case False
  with assms have "length log < trip_capacity" by simp
  then show ?thesis by (simp add: append_bounded_def)
qed

lemma append_bounded_then_drop:
  assumes "length log \<le> trip_capacity"
  shows "drop (length (append_bounded r log @ rs) - trip_capacity) (append_bounded r log @ rs) =
         drop (length (log @ r # rs) - trip_capacity) (log @ r # rs)"
proof (cases "length log = trip_capacity")
  case True
  then have ne: "log \<noteq> []" by (auto simp add: trip_capacity_def)
  from True have ab: "append_bounded r log = tl (log @ [r])"
    by (simp add: append_bounded_def)
  from ne have tl: "tl (log @ [r]) @ rs = drop 1 (log @ r # rs)"
    by (cases log) simp_all
  have "length (tl (log @ [r]) @ rs) - trip_capacity = length rs"
    using True by simp
  moreover have "length (log @ r # rs) - trip_capacity = length rs + 1"
    using True by simp
  ultimately show ?thesis
    unfolding ab tl by (simp only: drop_drop)
next
  case False
  with assms have "length log < trip_capacity" by simp
  then show ?thesis by (simp add: append_bounded_def)
qed

lemma append_bounded_length:
  "length log \<le> trip_capacity \<Longrightarrow> length (append_bounded r log) \<le> trip_capacity"
  by (simp add: append_bounded_drop)

lemma observe_all_Cons:
  "observe_all ((now, d, code) # calls) st =
     (fst (observe now d code st) # fst (observe_all calls (snd (observe now d code st))),
      snd (observe_all calls (snd (observe now d code st))))"
  by (simp split: prod.splits)

lemma observe_all_records:
  "fst (observe_all calls st) = map (\<lambda>(now, d, code). \<lparr>domain = d, statusCode = code, timestamp = now\<rparr>) calls"
proof (induction calls arbitrary: st)
  case Nil
  show ?case by simp
next
  case (Cons c calls)
  obtain now d code where c: "c = (now, d, code)" by (cases c)
  show ?case
    unfolding c observe_all_Cons by (simp add: Cons.IH observe_fst)
qed

lemma observe_all_log:
  "length (trip_log st) \<le> trip_capacity \<Longrightarrow>
   trip_log (snd (observe_all calls st)) =
     drop (length (trip_log st @ fst (observe_all calls st)) - trip_capacity)
       (trip_log st @ fst (observe_all calls st))"
proof (induction calls arbitrary: st)
  case Nil
  then show ?case by simp
next
  case (Cons c calls)
  obtain now d code where c: "c = (now, d, code)" by (cases c)
  define r where "r = fst (observe now d code st)"
  define st' where "st' = snd (observe now d code st)"
  have log': "trip_log st' = append_bounded r (trip_log st)"
    by (simp add: st'_def r_def observe_fst observe_log)
  have bound: "length (trip_log st') \<le> trip_capacity"
    using Cons.prems by (simp add: log' append_bounded_length)
  define rs where "rs = fst (observe_all calls st')"
  have unfold: "observe_all (c # calls) st = (r # rs, snd (observe_all calls st'))"
    unfolding c observe_all_Cons by (simp add: r_def st'_def rs_def)
  have "trip_log (snd (observe_all calls st')) =
      drop (length (trip_log st' @ rs) - trip_capacity) (trip_log st' @ rs)"
    using Cons.IH [OF bound] by (simp add: rs_def)
  also have "\<dots> = drop (length (trip_log st @ r # rs) - trip_capacity) (trip_log st @ r # rs)"
    unfolding log' using Cons.prems by (rule append_bounded_then_drop)
  finally show ?case by (simp add: unfold)
qed

lemma perform_bounded:
  "length (trip_log st) \<le> trip_capacity \<Longrightarrow> length (trip_log (perform cap op st)) \<le> trip_capacity"
proof (cases op)
  case (Observe now d code)
  assume "length (trip_log st) \<le> trip_capacity"
  then show ?thesis by (simp add: Observe observe_log append_bounded_length)
next
  case (Clear resolved d)
  assume "length (trip_log st) \<le> trip_capacity"
  with length_filter_le [of "\<lambda>r. domain r \<noteq> d" "trip_log st"]
  have "length (filter (\<lambda>r. domain r \<noteq> d) (trip_log st)) \<le> trip_capacity"
    by (rule le_trans)
  with \<open>length (trip_log st) \<le> trip_capacity\<close> show ?thesis
    by (simp add: Clear clear_def)
next
  case (Scale req)
  assume "length (trip_log st) \<le> trip_capacity"
  then show ?thesis by (simp add: Scale scale_def)
qed simp_all

lemma run_bounded:
  "length (trip_log st) \<le> trip_capacity \<Longrightarrow> length (trip_log (run cap ops st)) \<le> trip_capacity"
  by (induction ops arbitrary: st) (simp_all add: perform_bounded)

text \<open>The log of a state that holds at most 8 records, after a sequence of \<open>observe\<close>
  calls: the last 8 of the old records followed by the returned ones.\<close>

lemma observe_all_last_eight:
  assumes "length (trip_log st) \<le> trip_capacity" and "8 < length calls"
  shows "trip_log (snd (observe_all calls st)) =
           drop (length calls - 8) (fst (observe_all calls st))"
proof -
  define rs where "rs = fst (observe_all calls st)"
  have len: "length rs = length calls"
    by (simp add: rs_def observe_all_records)
  have "trip_log (snd (observe_all calls st)) =
      drop (length (trip_log st) + length calls - 8) (trip_log st @ rs)"
    using observe_all_log [OF assms(1), of calls, folded rs_def]
    by (simp add: len trip_capacity_def)
  with assms(2) show ?thesis
    by (simp add: rs_def [symmetric])
qed

lemma attach_bounded: "length (trip_log (attach freqs)) \<le> trip_capacity"
  by (simp add: attach_def)

text \<open>
  C1. Take the device state at attach and let any sequence of operations (observe,
  isTripped, snapshot, clear, scale) run on it. If more than 8 \<open>observe\<close> calls follow,
  the trips of a snapshot are exactly the records the last 8 of these calls returned, in
  call order, the older records having been evicted oldest first; the records the calls
  return are the observed domain and status with the clock reading of the call. And
  after the sequence of operations itself a snapshot holds at most 8 trips.
\<close>

theorem observe_fifo_bounded:
  "(8 < length calls \<longrightarrow>
      trips (snapshot level pci (snd (observe_all calls (run cap ops (attach freqs))))) =
        drop (length calls - 8) (fst (observe_all calls (run cap ops (attach freqs))))
      \<and> length (trips (snapshot level pci
            (snd (observe_all calls (run cap ops (attach freqs)))))) = 8)
   \<and> fst (observe_all calls (run cap ops (attach freqs))) =
        map (\<lambda>(now, d, code). \<lparr>domain = d, statusCode = code, timestamp = now\<rparr>) calls
   \<and> length (trips (snapshot level pci (run cap ops (attach freqs)))) \<le> 8"
proof -
  define st where "st = run cap ops (attach freqs)"
  have bound: "length (trip_log st) \<le> trip_capacity"
    unfolding st_def using attach_bounded by (rule run_bounded)
  have records: "fst (observe_all calls st) =
      map (\<lambda>(now, d, code). \<lparr>domain = d, statusCode = code, timestamp = now\<rparr>) calls"
    by (rule observe_all_records)
  have fifo: "trip_log (snd (observe_all calls st)) =
      drop (length calls - 8) (fst (observe_all calls st))" if "8 < length calls"
    using bound that by (rule observe_all_last_eight)
  have eight: "length (trip_log (snd (observe_all calls st))) = 8" if "8 < length calls"
    using that by (simp add: fifo records)
  from bound have "length (trip_log st) \<le> 8"
    by (simp add: trip_capacity_def)
  with fifo eight records show ?thesis
    by (simp add: snapshot_def st_def [symmetric])
qed

theorem observe_fifo_bounded_witness:
  "trips (snapshot 0 \<lparr>deviceStatus = 0, uncorrectableCount = 0, correctableCount = 0\<rparr>
     (snd (observe_all
        [(1, Datapath, 0x10), (2, UserControl, 0x11), (3, Datapath, 0x12),
         (4, ManagementControl, 0x13), (5, Datapath, 0x14), (6, UserControl, 0x15),
         (7, Datapath, 0x16), (8, Datapath, 0x17), (9, UserControl, 0x18)]
        (run (\<lambda>i. (10, 500))
           [Observe 0 ManagementControl 0x0f, Scale \<lparr>region = 0, targets = [0, 250]\<rparr>]
           (attach [300, 500, 0, 0]))))) =
     [\<lparr>domain = UserControl, statusCode = 0x11, timestamp = 2\<rparr>,
      \<lparr>domain = Datapath, statusCode = 0x12, timestamp = 3\<rparr>,
      \<lparr>domain = ManagementControl, statusCode = 0x13, timestamp = 4\<rparr>,
      \<lparr>domain = Datapath, statusCode = 0x14, timestamp = 5\<rparr>,
      \<lparr>domain = UserControl, statusCode = 0x15, timestamp = 6\<rparr>,
      \<lparr>domain = Datapath, statusCode = 0x16, timestamp = 7\<rparr>,
      \<lparr>domain = Datapath, statusCode = 0x17, timestamp = 8\<rparr>,
      \<lparr>domain = UserControl, statusCode = 0x18, timestamp = 9\<rparr>]
   \<and> length (trips (snapshot 0 \<lparr>deviceStatus = 0, uncorrectableCount = 0, correctableCount = 0\<rparr>
        (run (\<lambda>i. (10, 500))
           [Observe 0 ManagementControl 0x0f, Scale \<lparr>region = 0, targets = [0, 250]\<rparr>]
           (attach [300, 500, 0, 0])))) \<le> 8"
  using observe_fifo_bounded
      [of "[(1, Datapath, 0x10), (2, UserControl, 0x11), (3, Datapath, 0x12),
            (4, ManagementControl, 0x13), (5, Datapath, 0x14), (6, UserControl, 0x15),
            (7, Datapath, 0x16), (8, Datapath, 0x17), (9, UserControl, 0x18)]"
          0 "\<lparr>deviceStatus = 0, uncorrectableCount = 0, correctableCount = 0\<rparr>"
          "\<lambda>i. (10, 500)"
          "[Observe 0 ManagementControl 0x0f, Scale \<lparr>region = 0, targets = [0, 250]\<rparr>]"
          "[300, 500, 0, 0]"]
  by simp

section \<open>Proofs: the clock controller\<close>

text \<open>A request for region 0 whose targets are valid, on a device with neither the
  datapath nor the management-control domain tripped, is accepted and applied: \<open>scale\<close>
  does not reject everything.\<close>

lemma scale_accepts:
  assumes "region req = 0" and "targets_valid cap 0 (targets req)"
    and "\<not> isTripped Datapath st" and "\<not> isTripped ManagementControl st"
  shows "scale cap req st = Inr (st\<lparr>clock_freq := apply_targets (targets req) (clock_freq st)\<rparr>)"
  using assms by (simp add: scale_def)

text \<open>
  C6. A request whose region is not 0 is rejected by \<open>scale\<close>, whatever its target
  frequencies are: the result is the same error for every list of targets put in place
  of the request's own.
\<close>

theorem scale_rejects_other_region:
  assumes "region req \<noteq> 0"
  shows "scale cap req st = Inl UnsupportedRegion
         \<and> scale cap (req\<lparr>targets := ts\<rparr>) st = Inl UnsupportedRegion"
  using assms by (simp add: scale_def)

theorem scale_rejects_other_region_witness:
  "region \<lparr>region = 1, targets = [0, 250, 0, 0]\<rparr> \<noteq> 0
   \<and> scale (\<lambda>i. (10, 500)) \<lparr>region = 1, targets = [0, 250, 0, 0]\<rparr> (attach [300, 500, 0, 0])
       = Inl UnsupportedRegion
   \<and> scale (\<lambda>i. (10, 500)) \<lparr>region = 0, targets = [0, 250, 0, 0]\<rparr> (attach [300, 500, 0, 0])
       = Inr (attach [300, 250, 0, 0])"
proof -
  have r: "region \<lparr>region = 1, targets = [0, 250, 0, 0]\<rparr> \<noteq> 0"
    by simp
  have ok: "scale (\<lambda>i. (10, 500)) \<lparr>region = 0, targets = [0, 250, 0, 0]\<rparr> (attach [300, 500, 0, 0])
       = Inr (attach [300, 250, 0, 0])"
    by (simp add: scale_def attach_def isTripped_def in_range_def)
  show ?thesis
    using r ok scale_rejects_other_region [OF r, of "\<lambda>i. (10, 500)" "attach [300, 500, 0, 0]" "[0, 250, 0, 0]"]
    by simp
qed

end
